theory Spec2Isabelle
  imports Complex_Main
begin

section \<open>Data model of \<open>modulo/arquivo.py\<close>\<close>

text \<open>
  The module defines four classes whose instances are mutable and shared by reference:
  a \<open>Client\<close> keeps lists of the very \<open>Account\<close> and \<open>Investment\<close> objects its caller
  also holds, and an \<open>Account\<close> keeps a list of the \<open>Transaction\<close> objects that
  \<open>add_transaction\<close> hands back.  The model is therefore an explicit store: one table per
  class, indexed by object references, and every method is a function from stores to
  stores.

  Conventions of the embedding.
  \<^item> Python \<open>float\<close> is modelled by \<open>real\<close>: arithmetic is exact.  The rounding of IEEE
    doubles, and the \<open>OverflowError\<close> Python raises when a result or an int leaves their
    range, are outside the model.  So no property below is about a number the code
    computes in floating point: the properties are about the objects of the store, the
    lists, the attributes, the timestamps and the count of months, which are computed
    on integers, strings and references.  Claims C1, C2, C5 and C7, which are about
    balances and values as numbers, are not stated, and \<open>Client.get_net_worth\<close>, which
    only computes a number, is not embedded.
  \<^item> Python \<open>int\<close> is \<open>int\<close>, \<open>str\<close> is \<open>string\<close>.
  \<^item> \<open>datetime.now()\<close> is the environment: the store carries the sequence of readings
    the wall clock is going to return (\<open>clock\<close>) and the number of readings consumed so
    far (\<open>ticks\<close>).  Nothing is assumed about the readings.
  \<^item> An exception is a value of type \<open>error\<close>; a method that can raise returns
    \<open>error + result\<close>.  The store at the moment of a raise is not returned.
\<close>

type_synonym ref = nat

record datetime =
  year :: int
  month :: int
  day :: int
  hour :: int
  minute :: int
  second :: int
  microsecond :: int

datatype error = TypeError | AttributeError | ZeroDivisionError

text \<open>
  The values an attribute of a \<open>Transaction\<close> can hold.  The constructor stores what
  \<open>add_transaction\<close> passes (a float, an int, a str and the datetime of the clock), but
  \<open>Transaction.update\<close> stores whatever its caller passes under any existing name, so
  the attributes are dynamically typed.
\<close>

datatype pyval =
    PyNone
  | PyBool bool
  | PyInt int
  | PyFloat real
  | PyStr string
  | PyDatetime datetime

text \<open>
  A \<open>Transaction\<close> object: the four attributes \<open>__init__\<close> assigns, and \<open>shadow\<close>, the
  rest of the instance dictionary (names stored on the instance by \<open>setattr\<close> that are
  not among the four).  No method deletes an attribute, so the four are always there.
\<close>

record transaction =
  amount :: pyval
  date :: pyval
  category :: pyval
  description :: pyval
  shadow :: "string \<rightharpoonup> pyval"

record account =
  name :: string
  balance :: real
  transactions :: "ref list"

record investment =
  type :: string
  initial_amount :: real
  date_purchased :: datetime
  rate_of_return :: real
  client :: ref

record client =
  name :: string
  accounts :: "ref list"
  investments :: "ref list"

record heap =
  Transaction_at :: "ref \<Rightarrow> transaction"
  Account_at :: "ref \<Rightarrow> account"
  Investment_at :: "ref \<Rightarrow> investment"
  Client_at :: "ref \<Rightarrow> client"
  next_ref :: ref
  clock :: "nat \<Rightarrow> datetime"
  ticks :: nat

definition datetime_now :: "heap \<Rightarrow> datetime \<times> heap" where
  "datetime_now h = (clock h (ticks h), h\<lparr>ticks := Suc (ticks h)\<rparr>)"

definition alloc :: "heap \<Rightarrow> ref \<times> heap" where
  "alloc h = (next_ref h, h\<lparr>next_ref := Suc (next_ref h)\<rparr>)"

section \<open>Transaction and Account\<close>

text \<open>
  \<open>Transaction.__init__(self, amount, category, description)\<close>: the object is allocated,
  then the four attributes are assigned; \<open>date\<close> takes one reading of the clock.
\<close>

definition Transaction_init :: "real \<Rightarrow> int \<Rightarrow> string \<Rightarrow> heap \<Rightarrow> ref \<times> heap" where
  "Transaction_init amt cat descr h =
     (let (self, h1) = alloc h;
          (now, h2) = datetime_now h1
      in (self, h2\<lparr>Transaction_at := (Transaction_at h2)(self :=
            \<lparr>amount = PyFloat amt, date = PyDatetime now, category = PyInt cat,
             description = PyStr descr, shadow = Map.empty\<rparr>)\<rparr>))"

text \<open>\<open>Account.__init__(self, name)\<close>: balance \<open>0.0\<close>, no transactions.\<close>

definition Account_init :: "string \<Rightarrow> heap \<Rightarrow> ref \<times> heap" where
  "Account_init nm h =
     (let (self, h1) = alloc h
      in (self, h1\<lparr>Account_at := (Account_at h1)(self :=
            \<lparr>account.name = nm, balance = 0, transactions = []\<rparr>)\<rparr>))"

text \<open>
  \<open>Account.add_transaction\<close>: construct the transaction, append its reference to the
  list, add the amount to the balance, return the reference.  (The addition is exact
  here; the code's addition of doubles rounds, and raises \<open>OverflowError\<close> for an int
  beyond their range.)
\<close>

definition add_transaction :: "ref \<Rightarrow> real \<Rightarrow> int \<Rightarrow> string \<Rightarrow> heap \<Rightarrow> ref \<times> heap" where
  "add_transaction self amt cat descr h =
     (let (t, h1) = Transaction_init amt cat descr h;
          h2 = h1\<lparr>Account_at := (Account_at h1)(self :=
                 (Account_at h1 self)\<lparr>transactions := transactions (Account_at h1 self) @ [t]\<rparr>)\<rparr>;
          h3 = h2\<lparr>Account_at := (Account_at h2)(self :=
                 (Account_at h2 self)\<lparr>balance := balance (Account_at h2 self) + amt\<rparr>)\<rparr>
      in (t, h3))"

text \<open>
  A caller that performs a sequence of \<open>add_transaction\<close> calls on one account, each
  call given by its three arguments.
\<close>

fun add_transactions :: "ref \<Rightarrow> (real \<times> int \<times> string) list \<Rightarrow> heap \<Rightarrow> heap" where
  "add_transactions self [] h = h"
| "add_transactions self ((amt, cat, descr) # calls) h =
     add_transactions self calls (snd (add_transaction self amt cat descr h))"

section \<open>Client\<close>

definition Client_init :: "string \<Rightarrow> heap \<Rightarrow> ref \<times> heap" where
  "Client_init nm h =
     (let (self, h1) = alloc h
      in (self, h1\<lparr>Client_at := (Client_at h1)(self :=
            \<lparr>client.name = nm, accounts = [], investments = []\<rparr>)\<rparr>))"

definition add_account :: "ref \<Rightarrow> string \<Rightarrow> heap \<Rightarrow> ref \<times> heap" where
  "add_account self account_name h =
     (let (a, h1) = Account_init account_name h
      in (a, h1\<lparr>Client_at := (Client_at h1)(self :=
            (Client_at h1 self)\<lparr>accounts := accounts (Client_at h1 self) @ [a]\<rparr>)\<rparr>))"

definition add_investment :: "ref \<Rightarrow> ref \<Rightarrow> heap \<Rightarrow> heap" where
  "add_investment self i h =
     h\<lparr>Client_at := (Client_at h)(self :=
          (Client_at h self)\<lparr>investments := investments (Client_at h self) @ [i]\<rparr>)\<rparr>"

text \<open>
  Raising is sequenced with \<open>bind\<close>: the first error ends the computation.
\<close>

definition bind :: "error + 'a \<Rightarrow> ('a \<Rightarrow> error + 'b) \<Rightarrow> error + 'b" where
  "bind m f = (case m of Inl e \<Rightarrow> Inl e | Inr x \<Rightarrow> f x)"

section \<open>Filtering the transactions of an account\<close>

text \<open>
  Naive datetimes compare componentwise from the year down to the microsecond.
\<close>

fun lex_le :: "int list \<Rightarrow> int list \<Rightarrow> bool" where
  "lex_le [] ys = True"
| "lex_le (x # xs) [] = False"
| "lex_le (x # xs) (y # ys) = (x < y \<or> (x = y \<and> lex_le xs ys))"

definition components :: "datetime \<Rightarrow> int list" where
  "components d = [year d, month d, day d, hour d, minute d, second d, microsecond d]"

definition dt_le :: "datetime \<Rightarrow> datetime \<Rightarrow> bool" where
  "dt_le a b = lex_le (components a) (components b)"

text \<open>
  \<open>t.date >= start_date\<close> and \<open>t.date <= end_date\<close>, with a datetime on the right: a
  datetime on the left is compared, any other value raises \<open>TypeError\<close>.
\<close>

fun py_ge_datetime :: "pyval \<Rightarrow> datetime \<Rightarrow> error + bool" where
  "py_ge_datetime (PyDatetime d) s = Inr (dt_le s d)"
| "py_ge_datetime v s = Inl TypeError"

fun py_le_datetime :: "pyval \<Rightarrow> datetime \<Rightarrow> error + bool" where
  "py_le_datetime (PyDatetime d) e = Inr (dt_le d e)"
| "py_le_datetime v e = Inl TypeError"

text \<open>
  \<open>t.category == category\<close>, with an int on the right: numbers compare by value
  (\<open>True\<close> is 1, \<open>False\<close> is 0), every other value is unequal; nothing raises.
\<close>

fun py_eq_int :: "pyval \<Rightarrow> int \<Rightarrow> bool" where
  "py_eq_int (PyInt i) c = (i = c)"
| "py_eq_int (PyBool b) c = ((if b then 1 else 0) = c)"
| "py_eq_int (PyFloat r) c = (r = of_int c)"
| "py_eq_int v c = False"

text \<open>A list comprehension whose condition can raise.\<close>

fun filter_err :: "('a \<Rightarrow> error + bool) \<Rightarrow> 'a list \<Rightarrow> error + 'a list" where
  "filter_err p [] = Inr []"
| "filter_err p (x # xs) =
     bind (p x) (\<lambda>keep. bind (filter_err p xs) (\<lambda>r. Inr (if keep then x # r else r)))"

text \<open>
  \<open>Account.get_transactions(start_date=None, end_date=None, category=None)\<close>.  Each
  filter is applied when its argument is truthy: a datetime always is, \<open>None\<close> never
  is, and an int is unless it is 0.  The method reads the store and returns it as it
  was.  (When no filter is applied the result is the list object of the account
  itself; the model returns its content.)
\<close>

definition get_transactions ::
  "ref \<Rightarrow> datetime option \<Rightarrow> datetime option \<Rightarrow> int option \<Rightarrow> heap
     \<Rightarrow> error + (ref list \<times> heap)" where
  "get_transactions self start_date end_date cat h =
     bind (case start_date of
             None \<Rightarrow> Inr (transactions (Account_at h self))
           | Some s \<Rightarrow> filter_err (\<lambda>t. py_ge_datetime (date (Transaction_at h t)) s)
                        (transactions (Account_at h self)))
       (\<lambda>result1.
     bind (case end_date of
             None \<Rightarrow> Inr result1
           | Some e \<Rightarrow> filter_err (\<lambda>t. py_le_datetime (date (Transaction_at h t)) e) result1)
       (\<lambda>result2.
     Inr (case cat of
            None \<Rightarrow> result2
          | Some c \<Rightarrow>
              if c \<noteq> 0
              then filter (\<lambda>t. py_eq_int (category (Transaction_at h t)) c) result2
              else result2, h)))"

section \<open>Transaction.update\<close>

text \<open>
  \<open>hasattr(self, key)\<close> holds for the names in the instance dictionary, for the names
  the class body defines, and for the names every instance takes from \<open>object\<close> and from
  the class machinery (CPython 3: \<open>dir\<close> of a plain instance).
\<close>

definition instance_fields :: "string list" where
  "instance_fields = [''amount'', ''date'', ''category'', ''description'']"

definition class_attrs :: "string list" where
  "class_attrs = [''__init__'', ''__str__'', ''update'']"

definition object_attrs :: "string list" where
  "object_attrs =
     [''__class__'', ''__delattr__'', ''__dict__'', ''__dir__'', ''__doc__'', ''__eq__'',
      ''__format__'', ''__ge__'', ''__getattribute__'', ''__getstate__'', ''__gt__'',
      ''__hash__'', ''__init__'', ''__init_subclass__'', ''__le__'', ''__lt__'',
      ''__module__'', ''__ne__'', ''__new__'', ''__reduce__'', ''__reduce_ex__'',
      ''__repr__'', ''__setattr__'', ''__sizeof__'', ''__str__'', ''__subclasshook__'',
      ''__weakref__'']"

definition hasattr :: "transaction \<Rightarrow> string \<Rightarrow> bool" where
  "hasattr t k =
     (k \<in> set instance_fields \<or> k \<in> set class_attrs \<or> k \<in> set object_attrs
      \<or> k \<in> dom (shadow t))"

text \<open>
  \<open>setattr(self, key, value)\<close> on an instance of a class without \<open>__slots__\<close> and
  without \<open>__setattr__\<close>: the value goes into the instance dictionary, except under the
  three names that are data descriptors.  \<open>__class__\<close> accepts a class and \<open>__dict__\<close> a
  dict only, neither of which is a \<open>pyval\<close>; \<open>__weakref__\<close> is read-only.
\<close>

definition setattr :: "transaction \<Rightarrow> string \<Rightarrow> pyval \<Rightarrow> error + transaction" where
  "setattr t k v =
     (if k = ''amount'' then Inr (t\<lparr>amount := v\<rparr>)
      else if k = ''date'' then Inr (t\<lparr>date := v\<rparr>)
      else if k = ''category'' then Inr (t\<lparr>category := v\<rparr>)
      else if k = ''description'' then Inr (t\<lparr>description := v\<rparr>)
      else if k = ''__class__'' \<or> k = ''__dict__'' then Inl TypeError
      else if k = ''__weakref__'' then Inl AttributeError
      else Inr (t\<lparr>shadow := (shadow t)(k \<mapsto> v)\<rparr>))"

text \<open>The loop of \<open>update\<close> over \<open>attributes.items()\<close>, in the order of the dict.\<close>

fun update_items :: "(string \<times> pyval) list \<Rightarrow> transaction \<Rightarrow> error + transaction" where
  "update_items [] t = Inr t"
| "update_items ((key, v) # rest) t =
     (if hasattr t key then bind (setattr t key v) (update_items rest)
      else update_items rest t)"

text \<open>
  \<open>Transaction.update(self, **attributes)\<close>.  The keyword \<open>self\<close> collides with the
  positional parameter, and the call raises \<open>TypeError\<close> before the body runs.
\<close>

definition update :: "ref \<Rightarrow> (string \<times> pyval) list \<Rightarrow> heap \<Rightarrow> error + heap" where
  "update self attributes h =
     (if ''self'' \<in> set (map fst attributes) then Inl TypeError
      else bind (update_items attributes (Transaction_at h self))
             (\<lambda>t. Inr (h\<lparr>Transaction_at := (Transaction_at h)(self := t)\<rparr>)))"

section \<open>Investment\<close>

text \<open>
  \<open>Investment.__init__(self, type, amount, rate_of_return, client)\<close>;
  \<open>date_purchased\<close> takes one reading of the clock.
\<close>

definition Investment_init :: "string \<Rightarrow> real \<Rightarrow> real \<Rightarrow> ref \<Rightarrow> heap \<Rightarrow> ref \<times> heap" where
  "Investment_init ty amt rate cl h =
     (let (self, h1) = alloc h;
          (now, h2) = datetime_now h1
      in (self, h2\<lparr>Investment_at := (Investment_at h2)(self :=
            \<lparr>type = ty, initial_amount = amt, date_purchased = now,
             rate_of_return = rate, client = cl\<rparr>)\<rparr>))"

text \<open>
  The first statement of \<open>Investment.calculate_value\<close>, which assigns \<open>months\<close>.  The
  expression calls \<open>datetime.now()\<close> twice, left to right: the year comes from the first
  reading and the month from the second.
\<close>

definition months :: "ref \<Rightarrow> heap \<Rightarrow> int \<times> heap" where
  "months self h =
     (let (now1, h1) = datetime_now h;
          (now2, h2) = datetime_now h1
      in ((year now1 - year (date_purchased (Investment_at h2 self))) * 12
          + (month now2 - month (date_purchased (Investment_at h2 self))), h2))"

text \<open>
  \<open>x ** n\<close> for a float and an int, in exact arithmetic: a negative exponent gives the
  reciprocal power, and zero to a negative power raises \<open>ZeroDivisionError\<close>.  (The
  \<open>OverflowError\<close> of a result beyond the range of a double is outside the model.)
\<close>

definition py_pow :: "real \<Rightarrow> int \<Rightarrow> error + real" where
  "py_pow x n =
     (if 0 \<le> n then Inr (x ^ nat n)
      else if x = 0 then Inl ZeroDivisionError
      else Inr (1 / x ^ nat (- n)))"

text \<open>
  \<open>Investment.calculate_value\<close>.  The expression for \<open>months\<close> calls \<open>datetime.now()\<close>
  twice, left to right: the year comes from the first reading and the month from the
  second.
\<close>

definition calculate_value :: "ref \<Rightarrow> heap \<Rightarrow> error + (real \<times> heap)" where
  "calculate_value self h =
     (let (now1, h1) = datetime_now h;
          (now2, h2) = datetime_now h1;
          months = (year now1 - year (date_purchased (Investment_at h2 self))) * 12
                   + (month now2 - month (date_purchased (Investment_at h2 self)))
      in bind (py_pow (1 + rate_of_return (Investment_at h2 self)) months)
           (\<lambda>p. Inr (initial_amount (Investment_at h2 self) * p, h2)))"

text \<open>
  \<open>Investment.sell(self, account)\<close>: the value, then one \<open>add_transaction\<close> on the
  account with category 0 and the description the f-string builds.
\<close>

definition sell :: "ref \<Rightarrow> ref \<Rightarrow> heap \<Rightarrow> error + heap" where
  "sell self acc h =
     bind (calculate_value self h)
       (\<lambda>(current_value, h1).
          Inr (snd (add_transaction acc current_value 0
                      (''Venda de '' @ type (Investment_at h1 self)) h1)))"

section \<open>The store a session starts from\<close>

text \<open>
  Nothing is allocated, and the clock \<open>c\<close> is at its first reading.  The objects behind
  unallocated references are placeholders that no method reads before it writes them.
\<close>

definition empty_heap :: "(nat \<Rightarrow> datetime) \<Rightarrow> heap" where
  "empty_heap c =
     \<lparr>Transaction_at = (\<lambda>r. \<lparr>amount = PyNone, date = PyNone, category = PyNone,
                             description = PyNone, shadow = Map.empty\<rparr>),
      Account_at = (\<lambda>r. \<lparr>account.name = [], balance = 0, transactions = []\<rparr>),
      Investment_at = (\<lambda>r. \<lparr>type = [], initial_amount = 0, date_purchased = c 0,
                            rate_of_return = 0, client = 0\<rparr>),
      Client_at = (\<lambda>r. \<lparr>client.name = [], accounts = [], investments = []\<rparr>),
      next_ref = 0, clock = c, ticks = 0\<rparr>"

section \<open>Definitions the properties are stated with\<close>

text \<open>
  The count of months as the specification words it: twelve times the difference of
  the years plus the difference of the months, the current year and the current month
  being those of two readings of the clock.
\<close>

definition whole_months_elapsed :: "datetime \<Rightarrow> datetime \<Rightarrow> datetime \<Rightarrow> int" where
  "whole_months_elapsed purchased now1 now2 =
     (year now1 - year purchased) * 12 + (month now2 - month purchased)"

text \<open>
  \<open>value_at i h k\<close> is what \<open>calculate_value\<close> returns for the investment \<open>i\<close> of the
  store \<open>h\<close> when the call starts at position \<open>k\<close> of the clock.
\<close>

definition value_at :: "ref \<Rightarrow> heap \<Rightarrow> nat \<Rightarrow> error + real" where
  "value_at i h k = map_sum id fst (calculate_value i (h\<lparr>ticks := k\<rparr>))"

text \<open>
  The script \<open>exemplo.py\<close>, run from the empty store under a clock \<open>c\<close>: a client, an
  account with a deposit of 500 and a purchase of 200, and an investment of 1000 at 1%
  a month, registered with the client.  The client is object 0, the account 1, the
  transactions 2 and 3, the investment 4.  \<open>steady\<close> is a clock that stands still at
  10 o'clock of 15 December 2024.
\<close>

definition dec15 :: datetime where
  "dec15 = \<lparr>year = 2024, month = 12, day = 15, hour = 10, minute = 0, second = 0,
            microsecond = 0\<rparr>"

definition steady :: "nat \<Rightarrow> datetime" where
  "steady k = dec15"

definition exemplo :: "(nat \<Rightarrow> datetime) \<Rightarrow> heap" where
  "exemplo c =
     (let (cliente, h1) = Client_init ''Alice'' (empty_heap c);
          (conta, h2) = add_account cliente ''Conta Corrente'' h1;
          (t1, h3) = add_transaction conta 500 1 ''Deposito'' h2;
          (t2, h4) = add_transaction conta (- 200) 2 ''Compra'' h3;
          (investimento, h5) = Investment_init ''Fundo'' 1000 (1 / 100) cliente h4
      in add_investment cliente investimento h5)"

text \<open>
  Further clocks and stores of the examples.  \<open>two_months_later\<close> shows 15 December 2024
  for its first three readings and 15 February 2025 from then on; \<open>new_year_clock\<close>
  passes midnight of 31 December between its second and third reading;
  \<open>fall_back_clock\<close> is the local time of a night in which daylight saving time ends,
  01:59 at the first reading and 01:01 afterwards.
\<close>

definition two_months_later :: "nat \<Rightarrow> datetime" where
  "two_months_later k = (if k < 3 then dec15 else dec15\<lparr>year := 2025, month := 2\<rparr>)"

definition new_year_clock :: "nat \<Rightarrow> datetime" where
  "new_year_clock k =
     (if k = 0 then dec15
      else if k = 1 then \<lparr>year = 2024, month = 12, day = 31, hour = 23, minute = 59,
                          second = 59, microsecond = 999999\<rparr>
      else \<lparr>year = 2025, month = 1, day = 1, hour = 0, minute = 0, second = 0,
             microsecond = 0\<rparr>)"

definition fall_back_clock :: "nat \<Rightarrow> datetime" where
  "fall_back_clock k =
     (if k = 0 then \<lparr>year = 2024, month = 10, day = 27, hour = 1, minute = 59, second = 0,
                     microsecond = 0\<rparr>
      else \<lparr>year = 2024, month = 10, day = 27, hour = 1, minute = 1, second = 0,
             microsecond = 0\<rparr>)"

text \<open>
  \<open>sold\<close> and \<open>sold_later\<close> are the stores after \<open>investimento.sell(conta)\<close> in the
  session of \<open>exemplo.py\<close>, under the two clocks; \<open>december_purchase\<close> holds one
  investment of 1000 at 1% a month, bought on 15 December 2024 under \<open>new_year_clock\<close>.
\<close>

definition sold :: heap where
  "sold = (case sell 4 1 (exemplo steady) of Inl e \<Rightarrow> exemplo steady | Inr h \<Rightarrow> h)"

definition sold_later :: heap where
  "sold_later =
     (case sell 4 1 (exemplo two_months_later) of
        Inl e \<Rightarrow> exemplo two_months_later
      | Inr h \<Rightarrow> h)"

definition december_purchase :: heap where
  "december_purchase =
     snd (Investment_init ''Fundo'' 1000 (1 / 100) 0 (empty_heap new_year_clock))"

text \<open>
  The order of the timestamps of a ledger.  \<open>ledger_in_order\<close> says that the dates of
  the transactions of an account do not decrease along its list.  \<open>stamped\<close> adds what
  the next append needs: the transactions of the list are allocated objects, and no
  date lies after the reading the clock gives next.  \<open>monotone_clock\<close> says that the
  readings of the clock never go back.
\<close>

fun py_date_le :: "pyval \<Rightarrow> pyval \<Rightarrow> bool" where
  "py_date_le (PyDatetime a) (PyDatetime b) = dt_le a b"
| "py_date_le v w = False"

definition ledger_dates :: "heap \<Rightarrow> ref \<Rightarrow> pyval list" where
  "ledger_dates h a = map (\<lambda>t. date (Transaction_at h t)) (transactions (Account_at h a))"

definition ledger_in_order :: "heap \<Rightarrow> ref \<Rightarrow> bool" where
  "ledger_in_order h a = sorted_wrt py_date_le (ledger_dates h a)"

definition stamped :: "heap \<Rightarrow> ref \<Rightarrow> bool" where
  "stamped h a =
     (list_all (\<lambda>t. t < next_ref h) (transactions (Account_at h a))
      \<and> ledger_in_order h a
      \<and> list_all (\<lambda>d. py_date_le d (PyDatetime (clock h (ticks h)))) (ledger_dates h a))"

definition monotone_clock :: "heap \<Rightarrow> bool" where
  "monotone_clock h = (\<forall>j k. j \<le> k \<longrightarrow> dt_le (clock h j) (clock h k))"

text \<open>
  \<open>Transaction.update\<close> as the specification words it: an entry that names one of the
  four fields overwrites it, every other entry is dropped.
\<close>

fun patch :: "(string \<times> pyval) list \<Rightarrow> transaction \<Rightarrow> transaction" where
  "patch [] t = t"
| "patch ((k, v) # rest) t =
     patch rest
       (if k = ''amount'' then t\<lparr>amount := v\<rparr>
        else if k = ''date'' then t\<lparr>date := v\<rparr>
        else if k = ''category'' then t\<lparr>category := v\<rparr>
        else if k = ''description'' then t\<lparr>description := v\<rparr>
        else t)"

section \<open>Raising and returning\<close>

lemma bind_Inr_iff: "bind m f = Inr y \<longleftrightarrow> (\<exists>x. m = Inr x \<and> f x = Inr y)"
  by (cases m) (simp_all add: bind_def)

lemma bind_Inr [simp]: "bind (Inr x) f = f x"
  by (simp add: bind_def)

lemma bind_Inl [simp]: "bind (Inl e) f = Inl e"
  by (simp add: bind_def)

section \<open>The store after each method\<close>

lemma Account_init_store:
  "Account_init nm h =
     (next_ref h, h\<lparr>next_ref := Suc (next_ref h),
        Account_at := (Account_at h)(next_ref h :=
          \<lparr>account.name = nm, balance = 0, transactions = []\<rparr>)\<rparr>)"
  by (simp add: Account_init_def alloc_def)

lemma add_transaction_eq:
  "add_transaction a amt cat descr h =
     (next_ref h,
      h\<lparr>next_ref := Suc (next_ref h),
        ticks := Suc (ticks h),
        Transaction_at := (Transaction_at h)(next_ref h :=
           \<lparr>amount = PyFloat amt, date = PyDatetime (clock h (ticks h)), category = PyInt cat,
            description = PyStr descr, shadow = Map.empty\<rparr>),
        Account_at := (Account_at h)(a :=
           (Account_at h a)\<lparr>transactions := transactions (Account_at h a) @ [next_ref h],
              balance := balance (Account_at h a) + amt\<rparr>)\<rparr>)"
  by (simp add: add_transaction_def Transaction_init_def alloc_def datetime_now_def Let_def)

lemma add_transactions_store:
  "next_ref (add_transactions a calls h) = next_ref h + length calls
   \<and> ticks (add_transactions a calls h) = ticks h + length calls
   \<and> clock (add_transactions a calls h) = clock h
   \<and> transactions (Account_at (add_transactions a calls h) a)
       = transactions (Account_at h a) @ [next_ref h ..< next_ref h + length calls]
   \<and> (\<forall>r<next_ref h. Transaction_at (add_transactions a calls h) r = Transaction_at h r)
   \<and> (\<forall>j<length calls. Transaction_at (add_transactions a calls h) (next_ref h + j) =
         \<lparr>amount = PyFloat (fst (calls ! j)), date = PyDatetime (clock h (ticks h + j)),
          category = PyInt (fst (snd (calls ! j))), description = PyStr (snd (snd (calls ! j))),
          shadow = Map.empty\<rparr>)"
proof (induction calls arbitrary: h)
  case Nil
  show ?case by simp
next
  case (Cons c calls)
  obtain amt cat descr where c: "c = (amt, cat, descr)"
    by (cases c) auto
  define h1 where "h1 = snd (add_transaction a amt cat descr h)"
  have step: "add_transactions a (c # calls) h = add_transactions a calls h1"
    by (simp add: c h1_def)
  have h1: "next_ref h1 = Suc (next_ref h)" "ticks h1 = Suc (ticks h)" "clock h1 = clock h"
    "transactions (Account_at h1 a) = transactions (Account_at h a) @ [next_ref h]"
    "\<And>r. r < next_ref h \<Longrightarrow> Transaction_at h1 r = Transaction_at h r"
    "Transaction_at h1 (next_ref h) =
       \<lparr>amount = PyFloat amt, date = PyDatetime (clock h (ticks h)), category = PyInt cat,
        description = PyStr descr, shadow = Map.empty\<rparr>"
    by (simp_all add: h1_def add_transaction_eq)
  note IH = Cons.IH[of h1]
  have new: "\<forall>j<length (c # calls). Transaction_at (add_transactions a calls h1) (next_ref h + j) =
         \<lparr>amount = PyFloat (fst ((c # calls) ! j)), date = PyDatetime (clock h (ticks h + j)),
          category = PyInt (fst (snd ((c # calls) ! j))),
          description = PyStr (snd (snd ((c # calls) ! j))), shadow = Map.empty\<rparr>"
  proof (intro allI impI)
    fix j assume j: "j < length (c # calls)"
    show "Transaction_at (add_transactions a calls h1) (next_ref h + j) =
         \<lparr>amount = PyFloat (fst ((c # calls) ! j)), date = PyDatetime (clock h (ticks h + j)),
          category = PyInt (fst (snd ((c # calls) ! j))),
          description = PyStr (snd (snd ((c # calls) ! j))), shadow = Map.empty\<rparr>"
    proof (cases j)
      case 0
      have "Transaction_at (add_transactions a calls h1) (next_ref h) = Transaction_at h1 (next_ref h)"
        using IH by (simp add: h1)
      then show ?thesis by (simp add: 0 h1 c)
    next
      case (Suc j')
      then have "j' < length calls" using j by simp
      then have "Transaction_at (add_transactions a calls h1) (next_ref h1 + j') =
         \<lparr>amount = PyFloat (fst (calls ! j')), date = PyDatetime (clock h1 (ticks h1 + j')),
          category = PyInt (fst (snd (calls ! j'))), description = PyStr (snd (snd (calls ! j'))),
          shadow = Map.empty\<rparr>"
        using IH by blast
      then show ?thesis by (simp add: Suc h1)
    qed
  qed
  have old: "\<forall>r<next_ref h. Transaction_at (add_transactions a calls h1) r = Transaction_at h r"
    using IH by (simp add: h1)
  have "[next_ref h ..< next_ref h + length (c # calls)]
          = next_ref h # [next_ref h1 ..< next_ref h1 + length calls]"
    by (simp add: h1 upt_conv_Cons del: upt_Suc)
  moreover have "transactions (Account_at (add_transactions a calls h1) a)
       = transactions (Account_at h1 a) @ [next_ref h1 ..< next_ref h1 + length calls]"
    using IH by blast
  ultimately have ledger: "transactions (Account_at (add_transactions a calls h1) a)
       = transactions (Account_at h a) @ [next_ref h ..< next_ref h + length (c # calls)]"
    by (simp add: h1 del: upt_Suc)
  have counters: "next_ref (add_transactions a calls h1) = next_ref h + length (c # calls)"
    "ticks (add_transactions a calls h1) = ticks h + length (c # calls)"
    "clock (add_transactions a calls h1) = clock h"
    using IH by (simp_all add: h1)
  show ?case
    unfolding step using counters ledger old new by blast
qed

lemma calculate_value_eq:
  "calculate_value i h =
     bind (py_pow (1 + rate_of_return (Investment_at h i))
             (whole_months_elapsed (date_purchased (Investment_at h i)) (clock h (ticks h)) (clock h (Suc (ticks h)))))
       (\<lambda>p. Inr (initial_amount (Investment_at h i) * p, h\<lparr>ticks := ticks h + 2\<rparr>))"
  by (simp add: calculate_value_def datetime_now_def whole_months_elapsed_def Let_def)

lemma value_at_eq:
  "value_at i h k =
     bind (py_pow (1 + rate_of_return (Investment_at h i))
             (whole_months_elapsed (date_purchased (Investment_at h i)) (clock h k) (clock h (Suc k))))
       (\<lambda>p. Inr (initial_amount (Investment_at h i) * p))"
  by (cases "py_pow (1 + rate_of_return (Investment_at h i))
             (whole_months_elapsed (date_purchased (Investment_at h i)) (clock h k) (clock h (Suc k)))")
     (simp_all add: value_at_def calculate_value_eq)

lemma calculate_value_value_at:
  assumes "value_at i h (ticks h) = Inr V"
  shows "calculate_value i h = Inr (V, h\<lparr>ticks := ticks h + 2\<rparr>)"
  using assms unfolding value_at_eq calculate_value_eq
  by (cases "py_pow (1 + rate_of_return (Investment_at h i))
             (whole_months_elapsed (date_purchased (Investment_at h i)) (clock h (ticks h)) (clock h (Suc (ticks h))))")
     simp_all

lemma sell_iff:
  "sell i a h = Inr h' \<longleftrightarrow>
     (\<exists>V. value_at i h (ticks h) = Inr V
        \<and> h' = snd (add_transaction a V 0 (''Venda de '' @ type (Investment_at h i))
                     (h\<lparr>ticks := ticks h + 2\<rparr>)))"
proof (cases "py_pow (1 + rate_of_return (Investment_at h i))
          (whole_months_elapsed (date_purchased (Investment_at h i))
             (clock h (ticks h)) (clock h (Suc (ticks h))))")
  case (Inl e)
  then show ?thesis
    by (simp add: sell_def calculate_value_eq value_at_eq)
next
  case (Inr p)
  then show ?thesis
    by (auto simp: sell_def calculate_value_eq value_at_eq)
qed

lemma sell_store:
  assumes "value_at i h (ticks h) = Inr V"
  shows "sell i a h =
     Inr (h\<lparr>next_ref := Suc (next_ref h),
            ticks := ticks h + 3,
            Transaction_at := (Transaction_at h)(next_ref h :=
              \<lparr>amount = PyFloat V, date = PyDatetime (clock h (ticks h + 2)), category = PyInt 0,
               description = PyStr (''Venda de '' @ type (Investment_at h i)),
               shadow = Map.empty\<rparr>),
            Account_at := (Account_at h)(a :=
              (Account_at h a)\<lparr>transactions := transactions (Account_at h a) @ [next_ref h],
                 balance := balance (Account_at h a) + V\<rparr>)\<rparr>)"
  using assms by (simp add: sell_iff add_transaction_eq numeral_3_eq_3)

section \<open>The session of the example\<close>

lemmas init_defs =
  Client_init_def add_account_def Account_init_def Investment_init_def add_investment_def
  Transaction_init_def add_transaction_def alloc_def datetime_now_def empty_heap_def Let_def

lemma exemplo_store:
  "next_ref (exemplo c) = 5"
  "ticks (exemplo c) = 3"
  "clock (exemplo c) = c"
  "Client_at (exemplo c) 0 = \<lparr>client.name = ''Alice'', accounts = [1], investments = [4]\<rparr>"
  "Account_at (exemplo c) (Suc 0) = \<lparr>account.name = ''Conta Corrente'', balance = 300, transactions = [2, 3]\<rparr>"
  "Investment_at (exemplo c) 4 = \<lparr>type = ''Fundo'', initial_amount = 1000, date_purchased = c 2,
      rate_of_return = 1 / 100, client = 0\<rparr>"
  "Transaction_at (exemplo c) 2 = \<lparr>amount = PyFloat 500, date = PyDatetime (c 0), category = PyInt 1,
      description = PyStr ''Deposito'', shadow = Map.empty\<rparr>"
  "Transaction_at (exemplo c) 3 = \<lparr>amount = PyFloat (- 200), date = PyDatetime (c 1), category = PyInt 2,
      description = PyStr ''Compra'', shadow = Map.empty\<rparr>"
  by (simp_all add: exemplo_def init_defs numeral_2_eq_2)

lemma value_at_exemplo_steady: "value_at 4 (exemplo steady) k = Inr 1000"
  by (simp add: value_at_eq exemplo_store whole_months_elapsed_def steady_def py_pow_def)

lemma sold_eq: "sell 4 1 (exemplo steady) = Inr sold"
proof -
  have "value_at 4 (exemplo steady) (ticks (exemplo steady)) = Inr 1000"
    by (simp add: value_at_eq exemplo_store whole_months_elapsed_def steady_def py_pow_def)
  then have "calculate_value 4 (exemplo steady) = Inr (1000, (exemplo steady)\<lparr>ticks := ticks (exemplo steady) + 2\<rparr>)"
    by (rule calculate_value_value_at)
  then show ?thesis
    by (simp add: sold_def sell_def)
qed

lemma sold_store:
  "Account_at sold (Suc 0) = \<lparr>account.name = ''Conta Corrente'', balance = 1300, transactions = [2, 3, 5]\<rparr>"
  "Transaction_at sold 2 = Transaction_at (exemplo steady) 2"
  "Transaction_at sold 3 = Transaction_at (exemplo steady) 3"
  "Transaction_at sold 5 = \<lparr>amount = PyFloat 1000, date = PyDatetime dec15, category = PyInt 0,
      description = PyStr ''Venda de Fundo'', shadow = Map.empty\<rparr>"
  "Investment_at sold = Investment_at (exemplo steady)"
proof -
  have "sell 4 1 (exemplo steady) = Inr ((exemplo steady)
      \<lparr>next_ref := 6, ticks := 6,
        Transaction_at := (Transaction_at (exemplo steady))(5 :=
          \<lparr>amount = PyFloat 1000, date = PyDatetime dec15, category = PyInt 0,
           description = PyStr ''Venda de Fundo'', shadow = Map.empty\<rparr>),
        Account_at := (Account_at (exemplo steady))(Suc 0 :=
          \<lparr>account.name = ''Conta Corrente'', balance = 1300, transactions = [2, 3, 5]\<rparr>)\<rparr>)"
    using sell_store[OF value_at_exemplo_steady[of "ticks (exemplo steady)"], of 1]
    by (simp add: exemplo_store steady_def)
  then have eq: "sold = (exemplo steady)
      \<lparr>next_ref := 6, ticks := 6,
        Transaction_at := (Transaction_at (exemplo steady))(5 :=
          \<lparr>amount = PyFloat 1000, date = PyDatetime dec15, category = PyInt 0,
           description = PyStr ''Venda de Fundo'', shadow = Map.empty\<rparr>),
        Account_at := (Account_at (exemplo steady))(Suc 0 :=
          \<lparr>account.name = ''Conta Corrente'', balance = 1300, transactions = [2, 3, 5]\<rparr>)\<rparr>"
    using sold_eq by simp
  show "Account_at sold (Suc 0) = \<lparr>account.name = ''Conta Corrente'', balance = 1300, transactions = [2, 3, 5]\<rparr>"
    "Transaction_at sold 2 = Transaction_at (exemplo steady) 2"
    "Transaction_at sold 3 = Transaction_at (exemplo steady) 3"
    "Transaction_at sold 5 = \<lparr>amount = PyFloat 1000, date = PyDatetime dec15, category = PyInt 0,
      description = PyStr ''Venda de Fundo'', shadow = Map.empty\<rparr>"
    "Investment_at sold = Investment_at (exemplo steady)"
    by (simp_all add: eq)
qed

lemma value_at_later: "value_at 4 (exemplo two_months_later) 3 = Inr (10201 / 10)"
  by (simp add: value_at_eq exemplo_store whole_months_elapsed_def two_months_later_def
      dec15_def py_pow_def power2_eq_square)

lemma sold_later_eq: "sell 4 1 (exemplo two_months_later) = Inr sold_later"
proof -
  have "value_at 4 (exemplo two_months_later) (ticks (exemplo two_months_later))
          = Inr (10201 / 10)"
    by (simp add: exemplo_store value_at_later)
  then obtain h' where "sell 4 1 (exemplo two_months_later) = Inr h'"
    by (blast dest: sell_store)
  then show ?thesis
    by (simp add: sold_later_def)
qed

section \<open>The count of months\<close>

text \<open>
  \<open>calculate_value\<close> raises one plus the rate of return to the count that \<open>months\<close>
  computes, and leaves the store \<open>months\<close> leaves.
\<close>

lemma calculate_value_months:
  "calculate_value self h =
     bind (py_pow (1 + rate_of_return (Investment_at h self)) (fst (months self h)))
       (\<lambda>p. Inr (initial_amount (Investment_at h self) * p, snd (months self h)))"
  by (simp add: calculate_value_def months_def datetime_now_def Let_def)

lemma months_whole_months_elapsed:
  "months self h =
     (whole_months_elapsed (date_purchased (Investment_at h self))
        (clock h (ticks h)) (clock h (Suc (ticks h))),
      h\<lparr>ticks := ticks h + 2\<rparr>)"
  by (simp add: months_def datetime_now_def whole_months_elapsed_def Let_def)

text \<open>
  Claim C3 at a call that straddles the new year.  The investment was bought on 15
  December 2024.  The first reading of the clock is the last microsecond of 31
  December 2024 and the second is midnight of 1 January 2025: the year is still 2024
  and the month is already 1, so the count is (2024 - 2024) * 12 + (1 - 12) = -11.
  Counted as the claim says, from the year and the month of one current date, the
  months are 0 at the first reading and 1 at the second.
\<close>

theorem months_across_new_year:
  "fst (months 0 december_purchase) = - 11
   \<and> date_purchased (Investment_at december_purchase 0) = dec15
   \<and> whole_months_elapsed dec15 (new_year_clock 1) (new_year_clock 1) = 0
   \<and> whole_months_elapsed dec15 (new_year_clock 2) (new_year_clock 2) = 1"
  by (simp add: months_def december_purchase_def Investment_init_def alloc_def
      datetime_now_def empty_heap_def new_year_clock_def dec15_def
      whole_months_elapsed_def Let_def)

section \<open>Filtering by category\<close>

lemma get_transactions_category:
  "get_transactions a None None (Some c) h =
     Inr (if c = 0 then transactions (Account_at h a)
          else filter (\<lambda>t. py_eq_int (category (Transaction_at h t)) c)
                 (transactions (Account_at h a)), h)"
  by (simp add: get_transactions_def)

text \<open>
  Claim C4 at the category 0 that \<open>sell\<close> gives its transactions.  After the sale of
  the session of \<open>exemplo.py\<close> the account holds transactions of the categories 1, 2
  and 0; \<open>get_transactions(category=0)\<close> returns all three, not the one of category
  0: the argument 0 is falsy and the filter is skipped.
\<close>

theorem get_transactions_category_zero:
  "get_transactions 1 None None (Some 0) sold = Inr ([2, 3, 5], sold)
   \<and> map (\<lambda>t. category (Transaction_at sold t)) [2, 3, 5] = [PyInt 1, PyInt 2, PyInt 0]"
  by (simp add: get_transactions_def sold_store exemplo_store)

section \<open>Selling an investment\<close>

text \<open>
  Claim C6, amended.  The transaction \<open>sell\<close> appends has the description
  \<open>Venda de\<close>, a space, and the type of the investment.
\<close>

theorem sell_description:
  assumes "sell i a h = Inr h'"
  shows "description (Transaction_at h' (last (transactions (Account_at h' a))))
           = PyStr (''Venda de '' @ type (Investment_at h i))"
  using assms by (auto simp: sell_iff add_transaction_eq)

theorem sell_description_witness:
  "sell 4 1 (exemplo steady) = Inr sold
   \<and> description (Transaction_at sold (last (transactions (Account_at sold 1))))
       = PyStr ''Venda de Fundo''"
  using sell_description[OF sold_eq] sold_eq by (simp add: exemplo_store)

text \<open>
  As claim C6 is worded, with \<open>Sale of\<close>, it fails: the literal of the source is
  Portuguese.
\<close>

theorem sell_description_not_sale_of:
  "description (Transaction_at sold (last (transactions (Account_at sold 1))))
     \<noteq> PyStr (''Sale of '' @ type (Investment_at (exemplo steady) 4))"
  by (simp add: sold_store exemplo_store)

section \<open>Reading the transactions of an account\<close>

lemma new_ledger_entries:
  assumes "\<forall>j<n. f (b + j) = g j"
  shows "map f [b ..< b + n] = map g [0 ..< n]"
  using assms by (auto simp: list_eq_iff_nth_eq)

lemma fresh_account_ledger:
  fixes a0 h0 calls
  defines "h1 \<equiv> add_transactions a0 calls h0"
  assumes "transactions (Account_at h0 a0) = []"
  shows "map (\<lambda>t. Transaction_at h1 t) (transactions (Account_at h1 a0)) =
         map (\<lambda>j. \<lparr>amount = PyFloat (fst (calls ! j)), date = PyDatetime (clock h0 (ticks h0 + j)),
          category = PyInt (fst (snd (calls ! j))), description = PyStr (snd (snd (calls ! j))),
          shadow = Map.empty\<rparr>) [0 ..< length calls]"
proof -
  note st = add_transactions_store[of a0 calls h0]
  have "transactions (Account_at h1 a0) = [next_ref h0 ..< next_ref h0 + length calls]"
    using st assms by simp
  moreover have "\<forall>j<length calls. Transaction_at h1 (next_ref h0 + j) =
         \<lparr>amount = PyFloat (fst (calls ! j)), date = PyDatetime (clock h0 (ticks h0 + j)),
          category = PyInt (fst (snd (calls ! j))), description = PyStr (snd (snd (calls ! j))),
          shadow = Map.empty\<rparr>"
    using st unfolding h1_def by blast
  ultimately show ?thesis
    by (simp only: new_ledger_entries)
qed

lemma get_transactions_all:
  "get_transactions a None None None h = Inr (transactions (Account_at h a), h)"
  by (simp add: get_transactions_def)

text \<open>
  Claim C8.  Without filters \<open>get_transactions\<close> returns the list of the account as
  it stands, and the store it returns is the store of the call: balance, list and
  transactions are untouched.  The list is in the order of insertion: on an account
  just created, after any sequence of \<open>add_transaction\<close> calls, the transactions
  returned carry the amounts, categories and descriptions of the calls, in the order
  of the calls.
\<close>

theorem get_transactions_no_filter:
  "get_transactions a None None None h = Inr (transactions (Account_at h a), h)
   \<and> (let (a0, h0) = Account_init nm h;
          h1 = add_transactions a0 calls h0
      in map_sum id (\<lambda>(r, h2). map (\<lambda>t. (amount (Transaction_at h2 t),
                  category (Transaction_at h2 t), description (Transaction_at h2 t))) r)
           (get_transactions a0 None None None h1)
         = Inr (map (\<lambda>(amt, cat, descr). (PyFloat amt, PyInt cat, PyStr descr)) calls))"
proof -
  define a0 where "a0 = fst (Account_init nm h)"
  define h0 where "h0 = snd (Account_init nm h)"
  define h1 where "h1 = add_transactions a0 calls h0"
  have empty: "transactions (Account_at h0 a0) = []"
    by (simp add: a0_def h0_def Account_init_store)
  have "map (\<lambda>t. Transaction_at h1 t) (transactions (Account_at h1 a0)) =
         map (\<lambda>j. \<lparr>amount = PyFloat (fst (calls ! j)), date = PyDatetime (clock h0 (ticks h0 + j)),
          category = PyInt (fst (snd (calls ! j))), description = PyStr (snd (snd (calls ! j))),
          shadow = Map.empty\<rparr>) [0 ..< length calls]"
    unfolding h1_def using empty by (rule fresh_account_ledger)
  then have "map ((\<lambda>x. (amount x, category x, description x)) \<circ> (\<lambda>t. Transaction_at h1 t))
                (transactions (Account_at h1 a0)) =
         map ((\<lambda>x. (amount x, category x, description x)) \<circ> (\<lambda>j. \<lparr>amount = PyFloat (fst (calls ! j)), date = PyDatetime (clock h0 (ticks h0 + j)),
          category = PyInt (fst (snd (calls ! j))), description = PyStr (snd (snd (calls ! j))),
          shadow = Map.empty\<rparr>)) [0 ..< length calls]"
    by (simp only: map_map[symmetric])
  then have "map (\<lambda>t. (amount (Transaction_at h1 t), category (Transaction_at h1 t),
                description (Transaction_at h1 t))) (transactions (Account_at h1 a0))
        = map (\<lambda>j. (PyFloat (fst (calls ! j)), PyInt (fst (snd (calls ! j))),
                PyStr (snd (snd (calls ! j))))) [0 ..< length calls]"
    by (simp add: comp_def)
  also have "\<dots> = map (\<lambda>(amt, cat, descr). (PyFloat amt, PyInt cat, PyStr descr)) calls"
    by (rule nth_equalityI) (simp_all add: case_prod_unfold)
  finally have "map_sum id (\<lambda>(r, h2). map (\<lambda>t. (amount (Transaction_at h2 t),
                  category (Transaction_at h2 t), description (Transaction_at h2 t))) r)
           (get_transactions a0 None None None h1)
         = Inr (map (\<lambda>(amt, cat, descr). (PyFloat amt, PyInt cat, PyStr descr)) calls)"
    by (simp only: get_transactions_all map_sum.simps prod.case)
  then have "(let (a0, h0) = Account_init nm h;
          h1 = add_transactions a0 calls h0
      in map_sum id (\<lambda>(r, h2). map (\<lambda>t. (amount (Transaction_at h2 t),
                  category (Transaction_at h2 t), description (Transaction_at h2 t))) r)
           (get_transactions a0 None None None h1)
         = Inr (map (\<lambda>(amt, cat, descr). (PyFloat amt, PyInt cat, PyStr descr)) calls))"
    unfolding a0_def h0_def h1_def Let_def by (simp only: case_prod_unfold)
  then show ?thesis
    using get_transactions_all by blast
qed

section \<open>Updating a transaction\<close>

lemma hasattr_shadow: "shadow t' = shadow t \<Longrightarrow> hasattr t' k = hasattr t k"
  by (simp add: hasattr_def)

lemma hasattr_field: "k \<in> set instance_fields \<Longrightarrow> hasattr t k"
  by (simp add: hasattr_def)

lemma update_items_patch:
  assumes "list_all (\<lambda>(k, v). k \<in> set instance_fields \<or> \<not> hasattr t k) attributes"
  shows "update_items attributes t = Inr (patch attributes t)"
  using assms
proof (induction attributes arbitrary: t)
  case Nil
  show ?case by simp
next
  case (Cons kv rest)
  obtain k v where kv: "kv = (k, v)"
    by (cases kv) auto
  show ?case
  proof (cases "k \<in> set instance_fields")
    case True
    define t' where "t' = (if k = ''amount'' then t\<lparr>amount := v\<rparr>
        else if k = ''date'' then t\<lparr>date := v\<rparr>
        else if k = ''category'' then t\<lparr>category := v\<rparr>
        else t\<lparr>description := v\<rparr>)"
    have sh: "shadow t' = shadow t"
      by (simp add: t'_def)
    have set: "setattr t k v = Inr t'"
      using True by (auto simp: setattr_def t'_def instance_fields_def)
    have "list_all (\<lambda>(k, v). k \<in> set instance_fields \<or> \<not> hasattr t' k) rest"
      using Cons.prems by (simp add: kv hasattr_shadow[OF sh])
    then have "update_items rest t' = Inr (patch rest t')"
      by (rule Cons.IH)
    moreover have "patch (kv # rest) t = patch rest t'"
      using True by (auto simp: kv t'_def instance_fields_def)
    ultimately show ?thesis
      using True by (simp add: kv hasattr_field set)
  next
    case False
    then have no: "\<not> hasattr t k"
      using Cons.prems by (simp add: kv)
    have "list_all (\<lambda>(k, v). k \<in> set instance_fields \<or> \<not> hasattr t k) rest"
      using Cons.prems by simp
    then have "update_items rest t = Inr (patch rest t)"
      by (rule Cons.IH)
    moreover have "patch (kv # rest) t = patch rest t"
      using False by (auto simp: kv instance_fields_def)
    ultimately show ?thesis
      by (simp add: kv no)
  qed
qed

text \<open>
  Claim C9, amended.  When each key of the mapping is either one of \<open>amount\<close>,
  \<open>date\<close>, \<open>category\<close>, \<open>description\<close> or a name the transaction has no attribute
  for, and no key is \<open>self\<close>, then \<open>update\<close> raises nothing, every entry that names
  one of the four fields overwrites it, and every other entry is dropped.
\<close>

theorem update_patches_fields:
  assumes "''self'' \<notin> set (map fst attributes)"
    and "list_all (\<lambda>(k, v). k \<in> set instance_fields \<or> \<not> hasattr (Transaction_at h self) k)
           attributes"
  shows "update self attributes h =
           Inr (h\<lparr>Transaction_at := (Transaction_at h)(self :=
                  patch attributes (Transaction_at h self))\<rparr>)"
  using assms by (simp add: update_def update_items_patch)

theorem update_patches_fields_witness:
  "''self'' \<notin> set (map fst [(''amount'', PyFloat 750), (''memo'', PyStr ''x''), (''category'', PyInt 7)])
   \<and> list_all (\<lambda>(k, v). k \<in> set instance_fields \<or> \<not> hasattr (Transaction_at (exemplo steady) 2) k)
        [(''amount'', PyFloat 750), (''memo'', PyStr ''x''), (''category'', PyInt 7)]
   \<and> update 2 [(''amount'', PyFloat 750), (''memo'', PyStr ''x''), (''category'', PyInt 7)] (exemplo steady)
       = Inr ((exemplo steady)\<lparr>Transaction_at := (Transaction_at (exemplo steady))(2 :=
            \<lparr>amount = PyFloat 750, date = PyDatetime dec15, category = PyInt 7,
             description = PyStr ''Deposito'', shadow = Map.empty\<rparr>)\<rparr>)"
proof -
  have a: "''self'' \<notin> set (map fst [(''amount'', PyFloat 750), (''memo'', PyStr ''x''), (''category'', PyInt 7)])"
    by simp
  have b: "list_all (\<lambda>(k, v). k \<in> set instance_fields \<or> \<not> hasattr (Transaction_at (exemplo steady) 2) k)
        [(''amount'', PyFloat 750), (''memo'', PyStr ''x''), (''category'', PyInt 7)]"
    by (simp add: hasattr_def instance_fields_def class_attrs_def object_attrs_def exemplo_store)
  show ?thesis
    using update_patches_fields[OF a b] a b by (simp add: exemplo_store steady_def)
qed

text \<open>
  As claim C9 is worded, for every mapping, it fails twice.  The key \<open>update\<close> names
  no field, but the object has an attribute of that name (the method), so the entry
  is not dropped: the value is stored on the instance.  And the key \<open>__class__\<close> with
  an int makes \<open>setattr\<close> raise \<open>TypeError\<close>.
\<close>

theorem update_shadows_method_and_raises:
  "map_sum id (\<lambda>h'. shadow (Transaction_at h' 2) ''update'')
     (update 2 [(''update'', PyInt 5)] (exemplo steady)) = Inr (Some (PyInt 5))
   \<and> shadow (Transaction_at (exemplo steady) 2) ''update'' = None
   \<and> update 2 [(''__class__'', PyInt 5)] (exemplo steady) = Inl TypeError"
  by (simp add: update_def hasattr_def setattr_def instance_fields_def class_attrs_def
      object_attrs_def exemplo_store)

section \<open>The order of the timestamps\<close>

lemma lex_le_refl: "lex_le xs xs"
  by (induction xs) simp_all

lemma lex_le_trans: "lex_le xs ys \<Longrightarrow> lex_le ys zs \<Longrightarrow> lex_le xs zs"
proof (induction xs ys arbitrary: zs rule: lex_le.induct)
  case (1 ys)
  show ?case by simp
next
  case (2 x xs)
  then show ?case by simp
next
  case (3 x xs y ys)
  from "3.prems"(2) obtain z zs' where zs: "zs = z # zs'"
    by (cases zs) auto
  show ?case
    using "3.prems" "3.IH"[of zs'] by (auto simp: zs)
qed

lemma dt_le_refl: "dt_le d d"
  by (simp add: dt_le_def lex_le_refl)

lemma dt_le_trans: "dt_le a b \<Longrightarrow> dt_le b c \<Longrightarrow> dt_le a c"
  unfolding dt_le_def by (rule lex_le_trans)

lemma py_date_le_trans:
  "py_date_le d (PyDatetime b) \<Longrightarrow> dt_le b c \<Longrightarrow> py_date_le d (PyDatetime c)"
  by (cases d) (auto intro: dt_le_trans)

lemma stamped_frame:
  assumes mono: "monotone_clock h" and st: "stamped h a"
    and fr: "clock h' = clock h" "ticks h \<le> ticks h'" "next_ref h \<le> next_ref h'"
      "transactions (Account_at h' a) = transactions (Account_at h a)"
      "list_all (\<lambda>t. date (Transaction_at h' t) = date (Transaction_at h t))
         (transactions (Account_at h a))"
  shows "stamped h' a"
proof -
  have dates: "ledger_dates h' a = ledger_dates h a"
    using fr(4,5) by (simp add: ledger_dates_def list_all_iff)
  have step: "dt_le (clock h (ticks h)) (clock h (ticks h'))"
    using mono fr(2) by (simp add: monotone_clock_def)
  have "list_all (\<lambda>d. py_date_le d (PyDatetime (clock h (ticks h')))) (ledger_dates h a)"
    using st step by (auto simp: stamped_def list_all_iff intro: py_date_le_trans)
  moreover have "list_all (\<lambda>t. t < next_ref h') (transactions (Account_at h a))"
    using st fr(3) by (auto simp: stamped_def list_all_iff)
  ultimately show ?thesis
    using st by (simp add: stamped_def ledger_in_order_def dates fr)
qed

lemma stamped_add_transaction:
  assumes mono: "monotone_clock h" and st: "stamped h a"
  shows "stamped (snd (add_transaction a amt cat descr h)) a"
proof -
  define h1 where "h1 = snd (add_transaction a amt cat descr h)"
  have fresh: "\<forall>t\<in>set (transactions (Account_at h a)). t \<noteq> next_ref h"
    using st by (auto simp: stamped_def list_all_iff)
  have h1: "next_ref h1 = Suc (next_ref h)" "ticks h1 = Suc (ticks h)" "clock h1 = clock h"
    "transactions (Account_at h1 a) = transactions (Account_at h a) @ [next_ref h]"
    "date (Transaction_at h1 (next_ref h)) = PyDatetime (clock h (ticks h))"
    by (simp_all add: h1_def add_transaction_eq)
  have old: "\<forall>t\<in>set (transactions (Account_at h a)).
               date (Transaction_at h1 t) = date (Transaction_at h t)"
    using fresh by (simp add: h1_def add_transaction_eq)
  have dates: "ledger_dates h1 a = ledger_dates h a @ [PyDatetime (clock h (ticks h))]"
    using old by (simp add: ledger_dates_def h1)
  have step: "dt_le (clock h (ticks h)) (clock h (Suc (ticks h)))"
    using mono by (simp add: monotone_clock_def)
  have a: "list_all (\<lambda>t. t < next_ref h1) (transactions (Account_at h1 a))"
    using st by (auto simp: stamped_def list_all_iff h1)
  have b: "ledger_in_order h1 a"
    using st by (auto simp: stamped_def ledger_in_order_def dates sorted_wrt_append list_all_iff)
  have c: "list_all (\<lambda>d. py_date_le d (PyDatetime (clock h1 (ticks h1)))) (ledger_dates h1 a)"
    using st step by (auto simp: stamped_def dates h1 list_all_iff intro: py_date_le_trans)
  show ?thesis
    using a b c by (simp add: stamped_def h1_def)
qed

lemma stamped_add_transactions:
  assumes "monotone_clock h" and "stamped h a"
  shows "stamped (add_transactions a calls h) a"
  using assms
proof (induction calls arbitrary: h)
  case Nil
  then show ?case by simp
next
  case (Cons c calls)
  obtain amt cat descr where c: "c = (amt, cat, descr)"
    by (cases c) auto
  have "monotone_clock (snd (add_transaction a amt cat descr h))"
    using Cons.prems(1) by (simp add: monotone_clock_def add_transaction_eq)
  moreover have "stamped (snd (add_transaction a amt cat descr h)) a"
    using Cons.prems by (rule stamped_add_transaction)
  ultimately show ?case
    by (simp add: c Cons.IH)
qed

lemma stamped_Account_init: "stamped (snd (Account_init nm h)) (fst (Account_init nm h))"
  by (simp add: stamped_def Account_init_store ledger_in_order_def ledger_dates_def)

lemma stamped_sell:
  assumes mono: "monotone_clock h" and st: "stamped h a" and s: "sell i a h = Inr h'"
  shows "stamped h' a"
proof -
  obtain V where h': "h' = snd (add_transaction a V 0 (''Venda de '' @ type (Investment_at h i))
                     (h\<lparr>ticks := ticks h + 2\<rparr>))"
    using s by (auto simp: sell_iff)
  have "stamped (h\<lparr>ticks := ticks h + 2\<rparr>) a"
    using mono st by (rule stamped_frame) (simp_all add: list_all_iff)
  moreover have "monotone_clock (h\<lparr>ticks := ticks h + 2\<rparr>)"
    using mono by (simp add: monotone_clock_def)
  ultimately show ?thesis
    unfolding h' by (rule stamped_add_transaction[rotated])
qed

lemma monotone_two_months_later: "monotone_clock (exemplo two_months_later)"
  by (auto simp: monotone_clock_def exemplo_store two_months_later_def dt_le_def components_def dec15_def)

lemma stamped_exemplo: "stamped (exemplo two_months_later) 1"
  by (simp add: stamped_def ledger_in_order_def ledger_dates_def exemplo_store
      two_months_later_def dt_le_def components_def dec15_def)

text \<open>
  Claim C10, amended.  Provided the readings of the clock never go back: on an account
  just created, after any sequence of \<open>add_transaction\<close> calls, the dates of the
  transactions do not decrease along the list; and both methods that extend a list,
  \<open>add_transaction\<close> and \<open>sell\<close>, keep a ledger \<open>stamped\<close>, which includes that it
  is in order.  No \<open>update\<close> occurs in either.
\<close>

theorem ledger_in_order_monotone_clock:
  assumes "monotone_clock h"
  shows "(let (a0, h0) = Account_init nm h in ledger_in_order (add_transactions a0 calls h0) a0)
       \<and> (stamped h a \<longrightarrow> stamped (snd (add_transaction a amt cat descr h)) a)
       \<and> (stamped h a \<longrightarrow> sell i a h = Inr h' \<longrightarrow> stamped h' a)
       \<and> (stamped h a \<longrightarrow> ledger_in_order h a)"
proof -
  have "monotone_clock (snd (Account_init nm h))"
    using assms by (simp add: monotone_clock_def Account_init_store)
  then have "stamped (add_transactions (fst (Account_init nm h)) calls (snd (Account_init nm h)))
          (fst (Account_init nm h))"
    using stamped_Account_init by (rule stamped_add_transactions)
  then have "ledger_in_order (add_transactions (fst (Account_init nm h)) calls (snd (Account_init nm h)))
          (fst (Account_init nm h))"
    by (simp add: stamped_def)
  then have fresh: "let (a0, h0) = Account_init nm h
                    in ledger_in_order (add_transactions a0 calls h0) a0"
    by (simp only: case_prod_unfold Let_def)
  have add: "stamped h a \<longrightarrow> stamped (snd (add_transaction a amt cat descr h)) a"
    using assms by (blast intro: stamped_add_transaction)
  have sold: "stamped h a \<longrightarrow> sell i a h = Inr h' \<longrightarrow> stamped h' a"
    using assms by (blast intro: stamped_sell)
  have order: "stamped h a \<longrightarrow> ledger_in_order h a"
    by (simp add: stamped_def)
  show ?thesis
    by (intro conjI fresh add sold order)
qed

theorem ledger_in_order_monotone_clock_witness:
  "monotone_clock (exemplo two_months_later)
   \<and> stamped (exemplo two_months_later) 1
   \<and> sell 4 1 (exemplo two_months_later) = Inr sold_later
   \<and> ledger_in_order
        (add_transactions 5 [(40, 1, ''Deposito''), (- 15, 2, ''Compra'')]
           (snd (Account_init ''Poupanca'' (exemplo two_months_later)))) 5
   \<and> stamped (snd (add_transaction 1 50 3 ''Juros'' (exemplo two_months_later))) 1
   \<and> stamped sold_later 1
   \<and> ledger_in_order (exemplo two_months_later) 1"
  using ledger_in_order_monotone_clock[OF monotone_two_months_later,
      of "''Poupanca''" "[(40, 1, ''Deposito''), (- 15, 2, ''Compra'')]" 1 50 3 "''Juros''" 4 sold_later]
    monotone_two_months_later stamped_exemplo sold_later_eq
  by (simp add: Account_init_store exemplo_store)

text \<open>
  As claim C10 is worded, with no condition on the clock, it fails: \<open>datetime.now()\<close>
  is local wall-clock time, and in the night daylight saving time ends a transaction
  added at 01:59 is followed by one added at 01:01.
\<close>

theorem ledger_out_of_order_after_fall_back:
  "\<not> ledger_in_order
       (add_transactions 0 [(500, 1, ''Deposito''), (- 200, 2, ''Compra'')]
          (snd (Account_init ''Conta Corrente'' (empty_heap fall_back_clock)))) 0"
  by (simp add: ledger_in_order_def ledger_dates_def init_defs fall_back_clock_def
      dt_le_def components_def)

end

